theory Spec2Isabelle
  imports Main
begin

section \<open>Data model\<close>

text \<open>
  The module \<^verbatim>\<open>awswrangler/s3/_merge_upsert_table.py\<close> works on pandas dataframes.
  A dataframe is a list of column labels and a list of rows, each row holding one cell
  per column. A cell is \<open>Some v\<close> for a value and \<open>None\<close> for the missing value (NaN)
  that pandas fills in when a frame is reindexed on a label it does not have.
\<close>

type_synonym 'v cell = "'v option"
type_synonym 'v row = "'v cell list"
type_synonym 'v key = "'v cell list"

record 'v dataframe =
  columns :: "string list"
  rows :: "'v row list"

text \<open>A frame after \<^verbatim>\<open>set_index\<close>: every row carries its index label (the key tuple).\<close>

record 'v indexed_frame =
  frame_columns :: "string list"
  frame_rows :: "'v row list"
  frame_index :: "'v key list"

text \<open>Values of the examples: Python integers and strings.\<close>

datatype pyval = PyInt int | PyStr string

text \<open>The exceptions the pandas calls of the module and its collaborators can raise.\<close>

datatype exn =
    KeyError "string list"
  | ValueError_no_levels
  | ValueError_duplicate_keys
  | ValueError_duplicate_labels
  | ServiceError string

text \<open>
  Well-formed frames: column labels are pairwise different and every row has one cell
  per column.
\<close>

definition wf_dataframe :: "'v dataframe \<Rightarrow> bool" where
  "wf_dataframe df =
     (distinct (columns df) \<and> list_all (\<lambda>r. length r = length (columns df)) (rows df))"

section \<open>The pandas operations the module calls\<close>

text \<open>
  pandas stores and compares values by the dtype of their column. Building an index,
  testing membership between two indexes and concatenating two frames each bring the
  values to one dtype first, and such a cast can change a value (an \<^verbatim>\<open>int64\<close> met
  by a \<^verbatim>\<open>uint64\<close> or a \<^verbatim>\<open>float64\<close> becomes a \<^verbatim>\<open>float64\<close>; an object column of
  integers and \<^verbatim>\<open>None\<close> becomes a float index). pandas is not part of the module, so
  these casts are parameters of the model and nothing is assumed of them:
  \<^item> \<open>index_cast\<close>: the labels an index holds once built from the key cells;
  \<^item> \<open>isin_cast\<close>: the two label lists as \<^verbatim>\<open>Index.isin\<close> compares them;
  \<^item> \<open>concat_cast\<close>: the rows of the two frames as \<^verbatim>\<open>pandas.concat\<close> stores them;
  \<^item> \<open>index_append\<close>: the labels of the concatenated index.
\<close>

record 'v pandas =
  index_cast :: "'v key list \<Rightarrow> 'v key list"
  isin_cast :: "'v key list \<Rightarrow> 'v key list \<Rightarrow> 'v key list \<times> 'v key list"
  concat_cast :: "'v row list \<Rightarrow> 'v row list \<Rightarrow> 'v row list \<times> 'v row list"
  index_append :: "'v key list \<Rightarrow> 'v key list \<Rightarrow> 'v key list"

text \<open>The cell of a row under a column label; NaN when the frame has no such column.\<close>

definition get_cell :: "string list \<Rightarrow> 'v row \<Rightarrow> string \<Rightarrow> 'v cell" where
  "get_cell cols r c = (case map_of (zip cols r) c of None \<Rightarrow> None | Some x \<Rightarrow> x)"

text \<open>Reindexing one row from the labels \<open>cols\<close> to the labels \<open>cs\<close>.\<close>

definition reindex_row :: "string list \<Rightarrow> string list \<Rightarrow> 'v row \<Rightarrow> 'v row" where
  "reindex_row cols cs r = map (get_cell cols r) cs"

text \<open>
  \<^verbatim>\<open>pandas.DataFrame(df, columns=cs)\<close>: the frame reindexed on the labels \<open>cs\<close>.
  When \<open>cs\<close> are the frame's own labels nothing is reindexed; otherwise a frame with a
  repeated column label cannot be reindexed and \<^verbatim>\<open>ValueError\<close> is raised.
\<close>

definition project :: "'v dataframe \<Rightarrow> string list \<Rightarrow> exn + 'v dataframe" where
  "project df cs =
     (if cs = columns df then Inr df
      else if \<not> distinct (columns df) then Inl ValueError_duplicate_labels
      else Inr \<lparr>columns = cs, rows = map (reindex_row (columns df) cs) (rows df)\<rparr>)"

text \<open>
  \<^verbatim>\<open>DataFrame.duplicated()\<close>: one boolean per row, true when an equal row stands
  earlier in the frame (the first occurrence is not marked). A frame with no column or
  no row is empty, and its result is the empty series.
\<close>

fun duplicated_from :: "'a list \<Rightarrow> 'a list \<Rightarrow> bool list" where
  "duplicated_from seen [] = []"
| "duplicated_from seen (x # xs) = (x \<in> set seen) # duplicated_from (x # seen) xs"

definition duplicated :: "'v dataframe \<Rightarrow> bool list" where
  "duplicated df =
     (if columns df = [] \<or> rows df = [] then [] else duplicated_from [] (rows df))"

text \<open>Python's \<^verbatim>\<open>sum\<close> over booleans counts the true ones.\<close>

definition sum_bools :: "bool list \<Rightarrow> nat" where
  "sum_bools bs = sum_list (map (\<lambda>b. if b then 1 else 0) bs)"

text \<open>The labels of a list in order of first appearance.\<close>

fun unique_from :: "'a list \<Rightarrow> 'a list \<Rightarrow> 'a list" where
  "unique_from seen [] = []"
| "unique_from seen (x # xs) =
     (if x \<in> set seen then unique_from seen xs else x # unique_from (x # seen) xs)"

text \<open>\<^verbatim>\<open>Index.intersection\<close>: the labels of the first index that the second has too.\<close>

definition intersection :: "string list \<Rightarrow> string list \<Rightarrow> string list" where
  "intersection a b = unique_from [] (filter (\<lambda>c. c \<in> set b) a)"

text \<open>
  \<^verbatim>\<open>DataFrame.set_index(keys, drop=False, verify_integrity=True)\<close>: a key that is not
  a column raises \<^verbatim>\<open>KeyError\<close>; an empty key list raises \<^verbatim>\<open>ValueError\<close> (an
  index needs at least one level). The index is built from the key cells, with the cast
  of index construction, and with \<^verbatim>\<open>verify_integrity\<close> a repeated label in the built
  index raises \<^verbatim>\<open>ValueError\<close>. The columns stay as they are (\<^verbatim>\<open>drop=False\<close>).
\<close>

definition set_index ::
  "'v pandas \<Rightarrow> 'v dataframe \<Rightarrow> string list \<Rightarrow> exn + 'v indexed_frame" where
  "set_index pd df keys =
     (let missing = filter (\<lambda>k. k \<notin> set (columns df)) keys in
      if missing \<noteq> [] then Inl (KeyError missing)
      else if keys = [] then Inl ValueError_no_levels
      else
        (let idx = index_cast pd (map (reindex_row (columns df) keys) (rows df)) in
         if \<not> distinct idx then Inl ValueError_duplicate_keys
         else Inr \<lparr>frame_columns = columns df, frame_rows = rows df, frame_index = idx\<rparr>))"

text \<open>
  \<^verbatim>\<open>Index.isin(values)\<close>: both label lists are cast to a common dtype, then each label
  of the index is looked up among the values. Then the mask negation \<^verbatim>\<open>~\<close> and the
  boolean-mask selection.
\<close>

definition isin :: "'v pandas \<Rightarrow> 'v key list \<Rightarrow> 'v key list \<Rightarrow> bool list" where
  "isin pd idx vals =
     (case isin_cast pd idx vals of (idx', vals') \<Rightarrow> map (\<lambda>k. k \<in> set vals') idx')"

definition invert :: "bool list \<Rightarrow> bool list" where
  "invert m = map Not m"

definition select_rows :: "'v indexed_frame \<Rightarrow> bool list \<Rightarrow> 'v indexed_frame" where
  "select_rows f m =
     \<lparr>frame_columns = frame_columns f,
      frame_rows = map snd (filter fst (zip m (frame_rows f))),
      frame_index = map snd (filter fst (zip m (frame_index f)))\<rparr>"

text \<open>
  \<^verbatim>\<open>pandas.concat([a, b])\<close>: rows of \<open>a\<close> then rows of \<open>b\<close>, on the union of the
  column labels (the labels of \<open>a\<close> when both agree, else in order of first appearance),
  each row reindexed on that union and every column cast to one dtype.
\<close>

definition union_columns :: "string list \<Rightarrow> string list \<Rightarrow> string list" where
  "union_columns a b = (if a = b then a else unique_from [] (a @ b))"

definition concat_frames ::
  "'v pandas \<Rightarrow> 'v indexed_frame \<Rightarrow> 'v indexed_frame \<Rightarrow> 'v indexed_frame" where
  "concat_frames pd a b =
     (let cs = union_columns (frame_columns a) (frame_columns b) in
      case concat_cast pd (map (reindex_row (frame_columns a) cs) (frame_rows a))
                          (map (reindex_row (frame_columns b) cs) (frame_rows b)) of
        (rows_a, rows_b) \<Rightarrow>
          \<lparr>frame_columns = cs,
           frame_rows = rows_a @ rows_b,
           frame_index = index_append pd (frame_index a) (frame_index b)\<rparr>)"

text \<open>\<^verbatim>\<open>reset_index(drop=True)\<close>: the index labels are thrown away.\<close>

definition reset_index_drop :: "'v indexed_frame \<Rightarrow> 'v dataframe" where
  "reset_index_drop f = \<lparr>columns = frame_columns f, rows = frame_rows f\<rparr>"

section \<open>The quality gate\<close>

text \<open>
  The three messages \<^verbatim>\<open>_is_data_quality_sufficient\<close> appends to its local list
  \<^verbatim>\<open>error_messages\<close>; the third carries the column labels of both frames. The two
  projections on the primary key (lines 40 and 43) can raise, and then the gate raises.
\<close>

datatype violation =
    ExistingDuplicates
  | DeltaDuplicates
  | ColumnMismatch "string list" "string list"

definition error_messages ::
  "'v dataframe \<Rightarrow> 'v dataframe \<Rightarrow> string list \<Rightarrow> exn + violation list" where
  "error_messages existing_df delta_df primary_key =
     (case project existing_df primary_key of
        Inl e \<Rightarrow> Inl e
      | Inr existing_keys \<Rightarrow>
          (case project delta_df primary_key of
             Inl e \<Rightarrow> Inl e
           | Inr delta_keys \<Rightarrow>
               Inr ((if sum_bools (duplicated existing_keys) \<noteq> 0
                     then [ExistingDuplicates] else [])
                    @ (if sum_bools (duplicated delta_keys) \<noteq> 0
                       then [DeltaDuplicates] else [])
                    @ (if length (columns existing_df) \<noteq> length (columns delta_df)
                          \<or> length (intersection (columns existing_df) (columns delta_df))
                              \<noteq> length (columns existing_df)
                       then [ColumnMismatch (columns delta_df) (columns existing_df)]
                       else []))))"

definition is_data_quality_sufficient ::
  "'v dataframe \<Rightarrow> 'v dataframe \<Rightarrow> string list \<Rightarrow> exn + bool" where
  "is_data_quality_sufficient existing_df delta_df primary_key =
     (case error_messages existing_df delta_df primary_key of
        Inl e \<Rightarrow> Inl e
      | Inr msgs \<Rightarrow> Inr (length msgs = 0))"

section \<open>The merge\<close>

text \<open>
  Lines 21 to 26 of \<^verbatim>\<open>_update_existing_table\<close>: both frames are indexed on the
  primary key, the existing rows whose label is in the delta's index are dropped, the
  delta is appended, and the index is reset.
\<close>

definition merged_df ::
  "'v pandas \<Rightarrow> 'v dataframe \<Rightarrow> 'v dataframe \<Rightarrow> string list \<Rightarrow> exn + 'v dataframe" where
  "merged_df pd existing_df delta_df primary_key =
     (case set_index pd existing_df primary_key of
        Inl e \<Rightarrow> Inl e
      | Inr existing_ix \<Rightarrow>
          (case set_index pd delta_df primary_key of
             Inl e \<Rightarrow> Inl e
           | Inr delta_ix \<Rightarrow>
               Inr (reset_index_drop
                     (concat_frames pd
                        (select_rows existing_ix
                           (invert (isin pd (frame_index existing_ix)
                                      (frame_index delta_ix))))
                        delta_ix))))"

section \<open>The collaborators and the orchestrator\<close>

text \<open>
  The catalog, the reader and the writer are services outside the module. Each is a
  function of the outside world \<open>'w\<close> that returns a value or raises, and leaves a new
  world. Nothing is assumed about them: the catalog may answer differently on two calls.
  The writer's response is kept as the text \<^verbatim>\<open>str(response)\<close> that the module logs.
\<close>

record ('v, 'w) services =
  does_table_exist :: "string \<Rightarrow> string \<Rightarrow> 'w \<Rightarrow> (exn + bool) \<times> 'w"
  read_parquet_table :: "string \<Rightarrow> string \<Rightarrow> 'w \<Rightarrow> (exn + 'v dataframe) \<times> 'w"
  get_table_location :: "string \<Rightarrow> string \<Rightarrow> 'w \<Rightarrow> (exn + string) \<times> 'w"
  to_parquet ::
    "'v dataframe \<Rightarrow> string \<Rightarrow> string \<Rightarrow> string \<Rightarrow> 'w \<Rightarrow> (exn + string) \<times> 'w"

text \<open>The calls made to the collaborators and the records sent to the logger.\<close>

datatype 'v call =
    DoesTableExist string string
  | ReadParquetTable string string
  | GetTableLocation string string
  | ToParquet "'v dataframe" string string string

datatype log_record = LogException string | LogInfo string

record ('v, 'w) state =
  world :: 'w
  calls :: "'v call list"
  logs :: "log_record list"

definition invoke ::
  "'v call \<Rightarrow> ('w \<Rightarrow> (exn + 'a) \<times> 'w) \<Rightarrow> ('v, 'w) state \<Rightarrow> (exn + 'a) \<times> ('v, 'w) state" where
  "invoke c f s =
     (case f (world s) of (r, w) \<Rightarrow> (r, s\<lparr>world := w, calls := calls s @ [c]\<rparr>))"

definition log_exception :: "string \<Rightarrow> ('v, 'w) state \<Rightarrow> ('v, 'w) state" where
  "log_exception msg s = s\<lparr>logs := logs s @ [LogException msg]\<rparr>"

definition log_info :: "string \<Rightarrow> ('v, 'w) state \<Rightarrow> ('v, 'w) state" where
  "log_info msg s = s\<lparr>logs := logs s @ [LogInfo msg]\<rparr>"

text \<open>
  \<^verbatim>\<open>_update_existing_table\<close>: the merge, then the location lookup, the write in
  overwrite mode and the success message. An exception of the merge or of a collaborator
  ends the function there.
\<close>

definition update_existing_table ::
  "'v pandas \<Rightarrow> ('v, 'w) services \<Rightarrow> 'v dataframe \<Rightarrow> 'v dataframe \<Rightarrow> string list
     \<Rightarrow> string \<Rightarrow> string \<Rightarrow> ('v, 'w) state \<Rightarrow> (exn + unit) \<times> ('v, 'w) state" where
  "update_existing_table pd svc existing_df delta_df primary_key database table s =
     (case merged_df pd existing_df delta_df primary_key of
        Inl e \<Rightarrow> (Inl e, s)
      | Inr merged \<Rightarrow>
          (case invoke (GetTableLocation database table)
                  (get_table_location svc database table) s of
             (Inl e, s1) \<Rightarrow> (Inl e, s1)
           | (Inr path, s1) \<Rightarrow>
               (case invoke (ToParquet merged path database table)
                       (to_parquet svc merged path database table) s1 of
                  (Inl e, s2) \<Rightarrow> (Inl e, s2)
                | (Inr response, s2) \<Rightarrow>
                    (Inr (),
                     log_info (''Successfully Upserted '' @ database @ ''.'' @ table
                               @ '' and got response as '' @ response) s2))))"

text \<open>
  \<^verbatim>\<open>merge_upsert_table\<close>: the \<^verbatim>\<open>if\<close> asks the catalog once; the \<^verbatim>\<open>elif\<close>
  asks it again; the \<^verbatim>\<open>else\<close> is what remains. A failed quality gate has no branch of
  its own: the function falls through and returns. An exception of the gate ends the
  function there.
\<close>

definition merge_upsert_table ::
  "'v pandas \<Rightarrow> ('v, 'w) services \<Rightarrow> 'v dataframe \<Rightarrow> string \<Rightarrow> string \<Rightarrow> string list
     \<Rightarrow> ('v, 'w) state \<Rightarrow> (exn + unit) \<times> ('v, 'w) state" where
  "merge_upsert_table pd svc delta_df database table primary_key s =
     (case invoke (DoesTableExist database table) (does_table_exist svc database table) s of
        (Inl e, s1) \<Rightarrow> (Inl e, s1)
      | (Inr found, s1) \<Rightarrow>
          if found then
            (case invoke (ReadParquetTable database table)
                    (read_parquet_table svc database table) s1 of
               (Inl e, s2) \<Rightarrow> (Inl e, s2)
             | (Inr existing_df, s2) \<Rightarrow>
                 (case is_data_quality_sufficient existing_df delta_df primary_key of
                    Inl e \<Rightarrow> (Inl e, s2)
                  | Inr sufficient \<Rightarrow>
                      if sufficient = True
                      then update_existing_table pd svc existing_df delta_df primary_key
                             database table s2
                      else (Inr (), s2)))
          else
            (case invoke (DoesTableExist database table)
                    (does_table_exist svc database table) s1 of
               (Inl e, s2) \<Rightarrow> (Inl e, s2)
             | (Inr found_again, s2) \<Rightarrow>
                 if found_again = False
                 then (Inr (),
                       log_exception (''database_name.table_name= '' @ database @ ''.''
                                      @ table @ '' does not exist '') s2)
                 else (Inr (), log_exception ''Reached a unknown logical state'' s2)))"

section \<open>Views used to state the properties\<close>

text \<open>The primary-key tuple of each row of a frame, in row order.\<close>

definition key_tuples :: "'v dataframe \<Rightarrow> string list \<Rightarrow> 'v key list" where
  "key_tuples df primary_key = map (reindex_row (columns df) primary_key) (rows df)"

section \<open>Example inputs\<close>

text \<open>
  The frames of the scenarios in the specification: the basic upsert (the delta has its
  columns in the other order), an existing table with a repeated key, and a delta with
  one column more.
\<close>

definition ex_existing :: "pyval dataframe" where
  "ex_existing =
     \<lparr>columns = [''id'', ''v''],
      rows = [[Some (PyInt 1), Some (PyStr ''a'')], [Some (PyInt 2), Some (PyStr ''b'')]]\<rparr>"

definition ex_delta :: "pyval dataframe" where
  "ex_delta =
     \<lparr>columns = [''v'', ''id''],
      rows = [[Some (PyStr ''B''), Some (PyInt 2)], [Some (PyStr ''c''), Some (PyInt 3)]]\<rparr>"

definition ex_merged :: "pyval dataframe" where
  "ex_merged =
     \<lparr>columns = [''id'', ''v''],
      rows = [[Some (PyInt 1), Some (PyStr ''a'')], [Some (PyInt 2), Some (PyStr ''B'')],
              [Some (PyInt 3), Some (PyStr ''c'')]]\<rparr>"

definition ex_duplicates :: "pyval dataframe" where
  "ex_duplicates =
     \<lparr>columns = [''id'', ''v''],
      rows = [[Some (PyInt 1), Some (PyStr ''a'')], [Some (PyInt 1), Some (PyStr ''b'')]]\<rparr>"

definition ex_delta_one :: "pyval dataframe" where
  "ex_delta_one = \<lparr>columns = [''id'', ''v''], rows = [[Some (PyInt 2), Some (PyStr ''c'')]]\<rparr>"

definition ex_delta_extra :: "pyval dataframe" where
  "ex_delta_extra =
     \<lparr>columns = [''id'', ''v'', ''extra''],
      rows = [[Some (PyInt 2), Some (PyStr ''c''), None]]\<rparr>"

text \<open>
  A store with a single table: the world is the table's content, absent when \<open>None\<close>.
  Lookups leave the world as it is; the writer replaces the content.
\<close>

definition single_table :: "(pyval, pyval dataframe option) services" where
  "single_table =
     \<lparr>does_table_exist = (\<lambda>db t w. (Inr (w \<noteq> None), w)),
      read_parquet_table =
        (\<lambda>db t w. case w of None \<Rightarrow> (Inl (ServiceError ''no such table''), w)
                           | Some df \<Rightarrow> (Inr df, w)),
      get_table_location = (\<lambda>db t w. (Inr (''s3://bucket/'' @ db @ ''/'' @ t), w)),
      to_parquet = (\<lambda>df p db t w. (Inr ''written'', Some df))\<rparr>"

text \<open>
  A catalog whose answer changes between calls: the world counts the lookups, and the
  table is reported present on every second one.
\<close>

definition flaky_catalog :: "(pyval, nat) services" where
  "flaky_catalog =
     \<lparr>does_table_exist = (\<lambda>db t n. (Inr (odd n), Suc n)),
      read_parquet_table = (\<lambda>db t n. (Inr ex_existing, n)),
      get_table_location = (\<lambda>db t n. (Inr ''s3://bucket/t'', n)),
      to_parquet = (\<lambda>df p db t n. (Inr ''written'', n))\<rparr>"

text \<open>
  A pandas that casts nothing, as on frames whose columns have the same dtype in both
  frames and hold their values exactly (the example frames: integer ids, text values).
\<close>

definition exact_casts :: "'v pandas" where
  "exact_casts =
     \<lparr>index_cast = (\<lambda>ks. ks),
      isin_cast = (\<lambda>idx vals. (idx, vals)),
      concat_cast = (\<lambda>rows_a rows_b. (rows_a, rows_b)),
      index_append = (\<lambda>idx_a idx_b. idx_a @ idx_b)\<rparr>"

definition start :: "'w \<Rightarrow> ('v, 'w) state" where
  "start w = \<lparr>world = w, calls = [], logs = []\<rparr>"

section \<open>Facts about the pandas operations\<close>

lemma sum_bools_duplicated_from:
  "(sum_bools (duplicated_from seen xs) = 0) = (distinct xs \<and> set xs \<inter> set seen = {})"
  by (induction xs arbitrary: seen) (auto simp: sum_bools_def)

lemma unique_from_set: "set (unique_from seen xs) = set xs - set seen"
  by (induction xs arbitrary: seen) auto

lemma unique_from_distinct: "distinct (unique_from seen xs)"
  by (induction xs arbitrary: seen) (auto simp: unique_from_set)

lemma unique_from_seen: "set ys \<subseteq> set seen \<Longrightarrow> unique_from seen ys = []"
  by (induction ys arbitrary: seen) auto

lemma unique_from_append:
  "distinct xs \<Longrightarrow> set xs \<inter> set seen = {} \<Longrightarrow> set ys \<subseteq> set xs \<union> set seen
   \<Longrightarrow> unique_from seen (xs @ ys) = xs"
proof (induction xs arbitrary: seen)
  case Nil
  then show ?case by (simp add: unique_from_seen)
next
  case (Cons x xs)
  have "unique_from (x # seen) (xs @ ys) = xs"
    using Cons.prems by (intro Cons.IH) auto
  with Cons.prems show ?case by simp
qed

lemma length_intersection: "length (intersection a b) = card (set a \<inter> set b)"
proof -
  have "length (intersection a b) = card (set (intersection a b))"
    by (simp add: intersection_def distinct_card unique_from_distinct)
  also have "set (intersection a b) = set a \<inter> set b"
    by (auto simp: intersection_def unique_from_set)
  finally show ?thesis .
qed

lemma columns_match_iff:
  "(length a = length b \<and> length (intersection a b) = length a)
   = (distinct a \<and> distinct b \<and> set a = set b)"
proof
  assume h: "length a = length b \<and> length (intersection a b) = length a"
  then have c: "card (set a \<inter> set b) = length a" by (simp add: length_intersection)
  have "card (set a \<inter> set b) \<le> card (set a)" by (simp add: card_mono)
  with c have ca: "card (set a) = length a" using card_length [of a] by linarith
  then have da: "distinct a" by (simp add: card_distinct)
  from c ca have "set a \<inter> set b = set a"
    by (intro card_subset_eq) auto
  then have sub: "set a \<subseteq> set b" by blast
  then have "card (set a) \<le> card (set b)" by (simp add: card_mono)
  with ca h have cb: "card (set b) = length b" using card_length [of b] by linarith
  then have db: "distinct b" by (simp add: card_distinct)
  from sub ca cb h have "set a = set b" by (intro card_subset_eq) auto
  with da db show "distinct a \<and> distinct b \<and> set a = set b" by simp
next
  assume h: "distinct a \<and> distinct b \<and> set a = set b"
  then have len: "length a = length b" by (metis distinct_card)
  moreover from h len have "length (intersection a b) = length a"
    by (simp add: length_intersection distinct_card)
  ultimately show "length a = length b \<and> length (intersection a b) = length a" by simp
qed

lemma reindex_row_self:
  "distinct cols \<Longrightarrow> length r = length cols \<Longrightarrow> reindex_row cols cols r = r"
  by (simp add: reindex_row_def get_cell_def list_eq_iff_nth_eq map_of_zip_nth)

lemma project_wf:
  assumes "wf_dataframe df"
  shows "\<exists>p. project df primary_key = Inr p \<and> columns p = primary_key
             \<and> rows p = key_tuples df primary_key"
proof (cases "primary_key = columns df")
  case True
  have "map (reindex_row (columns df) (columns df)) (rows df) = rows df"
    using assms by (intro map_idI) (auto simp: wf_dataframe_def list_all_iff reindex_row_self)
  with True show ?thesis by (simp add: project_def key_tuples_def)
next
  case False
  with assms show ?thesis by (simp add: project_def key_tuples_def wf_dataframe_def)
qed

lemma no_duplicates_iff:
  assumes "primary_key \<noteq> []" and "columns p = primary_key" and "rows p = ks"
  shows "(sum_bools (duplicated p) = 0) = distinct ks"
proof (cases "ks = []")
  case True
  with assms show ?thesis by (simp add: duplicated_def sum_bools_def)
next
  case False
  with assms show ?thesis
    by (simp add: duplicated_def sum_bools_duplicated_from)
qed

lemma error_messages_wf:
  assumes "wf_dataframe e" and "wf_dataframe d" and "primary_key \<noteq> []"
  shows "error_messages e d primary_key =
           Inr ((if \<not> distinct (key_tuples e primary_key) then [ExistingDuplicates] else [])
                @ (if \<not> distinct (key_tuples d primary_key) then [DeltaDuplicates] else [])
                @ (if set (columns e) \<noteq> set (columns d)
                   then [ColumnMismatch (columns d) (columns e)] else []))"
proof -
  from project_wf [OF assms(1)] obtain pe where
    pe: "project e primary_key = Inr pe" "columns pe = primary_key"
        "rows pe = key_tuples e primary_key"
    by blast
  from project_wf [OF assms(2)] obtain pd where
    pd: "project d primary_key = Inr pd" "columns pd = primary_key"
        "rows pd = key_tuples d primary_key"
    by blast
  have de: "(sum_bools (duplicated pe) = 0) = distinct (key_tuples e primary_key)"
    using assms(3) pe(2) pe(3) by (rule no_duplicates_iff)
  have dd: "(sum_bools (duplicated pd) = 0) = distinct (key_tuples d primary_key)"
    using assms(3) pd(2) pd(3) by (rule no_duplicates_iff)
  have cols: "(length (columns e) = length (columns d)
               \<and> length (intersection (columns e) (columns d)) = length (columns e))
              = (set (columns e) = set (columns d))"
    using assms(1,2) columns_match_iff [of "columns e" "columns d"]
    by (simp add: wf_dataframe_def)
  show ?thesis
    using de dd cols by (auto simp: error_messages_def pe(1) pd(1))
qed

lemma gate_iff:
  assumes "wf_dataframe e" and "wf_dataframe d" and "primary_key \<noteq> []"
  shows "is_data_quality_sufficient e d primary_key =
           Inr (distinct (key_tuples e primary_key) \<and> distinct (key_tuples d primary_key)
                \<and> set (columns e) = set (columns d))"
  by (simp add: is_data_quality_sufficient_def error_messages_wf [OF assms])

lemma gate_columns:
  assumes "is_data_quality_sufficient e d primary_key = Inr True"
  shows "distinct (columns e) \<and> distinct (columns d) \<and> set (columns e) = set (columns d)"
proof -
  from assms have "length (columns e) = length (columns d)
       \<and> length (intersection (columns e) (columns d)) = length (columns e)"
    by (auto simp: is_data_quality_sufficient_def error_messages_def
        split: sum.splits if_splits)
  then show ?thesis by (simp add: columns_match_iff)
qed

text \<open>
  Claim C2. For well-formed frames and a non-empty primary key whose columns both frames
  have, the gate returns, and returns true exactly when the existing table has no
  repeated key tuple, the delta has none, and both have the same set of column labels.
\<close>

theorem quality_gate_iff:
  assumes "wf_dataframe existing_df" and "wf_dataframe delta_df"
    and "primary_key \<noteq> []"
    and "set primary_key \<subseteq> set (columns existing_df)"
    and "set primary_key \<subseteq> set (columns delta_df)"
  shows "is_data_quality_sufficient existing_df delta_df primary_key =
           Inr (distinct (key_tuples existing_df primary_key)
                \<and> distinct (key_tuples delta_df primary_key)
                \<and> set (columns existing_df) = set (columns delta_df))"
  using assms(1-3) by (rule gate_iff)

lemma ex_wf: "wf_dataframe ex_existing" "wf_dataframe ex_delta"
  by (simp_all add: wf_dataframe_def ex_existing_def ex_delta_def)

theorem quality_gate_iff_witness:
  "is_data_quality_sufficient ex_existing ex_delta [''id''] =
     Inr (distinct (key_tuples ex_existing [''id''])
          \<and> distinct (key_tuples ex_delta [''id''])
          \<and> set (columns ex_existing) = set (columns ex_delta))"
proof -
  have c: "[''id''] \<noteq> ([] :: string list)" by simp
  have d: "set [''id''] \<subseteq> set (columns ex_existing)" by (simp add: ex_existing_def)
  have e: "set [''id''] \<subseteq> set (columns ex_delta)" by (simp add: ex_delta_def)
  show ?thesis by (rule quality_gate_iff [OF ex_wf c d e])
qed

section \<open>What the gate reports\<close>

lemma ex_wf_more: "wf_dataframe ex_duplicates" "wf_dataframe ex_delta_one"
  "wf_dataframe ex_delta_extra"
  by (simp_all add: wf_dataframe_def ex_duplicates_def ex_delta_one_def ex_delta_extra_def)

lemma ex_keys:
  "key_tuples ex_existing [''id''] = [[Some (PyInt 1)], [Some (PyInt 2)]]"
  "key_tuples ex_delta [''id''] = [[Some (PyInt 2)], [Some (PyInt 3)]]"
  "key_tuples ex_duplicates [''id''] = [[Some (PyInt 1)], [Some (PyInt 1)]]"
  "key_tuples ex_delta_one [''id''] = [[Some (PyInt 2)]]"
  "key_tuples ex_delta_extra [''id''] = [[Some (PyInt 2)]]"
  by (simp_all add: key_tuples_def reindex_row_def get_cell_def ex_existing_def ex_delta_def
      ex_duplicates_def ex_delta_one_def ex_delta_extra_def)

lemma ex_columns_same:
  "set (columns ex_existing) = set (columns ex_delta)"
  "set (columns ex_duplicates) = set (columns ex_delta_one)"
  by (simp_all add: ex_existing_def ex_delta_def ex_duplicates_def ex_delta_one_def
      insert_commute)

lemma ex_columns_differ:
  "set (columns ex_existing) \<noteq> set (columns ex_delta_extra)"
  "set (columns ex_duplicates) \<noteq> set (columns ex_delta_extra)"
proof -
  have a: "''extra'' \<in> set (columns ex_delta_extra)" by (simp add: ex_delta_extra_def)
  have b: "''extra'' \<notin> set (columns ex_existing)" by (simp add: ex_existing_def)
  have c: "''extra'' \<notin> set (columns ex_duplicates)" by (simp add: ex_duplicates_def)
  from a b show "set (columns ex_existing) \<noteq> set (columns ex_delta_extra)" by metis
  from a c show "set (columns ex_duplicates) \<noteq> set (columns ex_delta_extra)" by metis
qed

lemma ex_messages_dup: "error_messages ex_duplicates ex_delta_one [''id''] = Inr [ExistingDuplicates]"
  using ex_columns_same(2)
  by (simp add: error_messages_wf [OF ex_wf_more(1) ex_wf_more(2)] ex_keys)

lemma ex_messages_extra:
  "error_messages ex_existing ex_delta_extra [''id'']
     = Inr [ColumnMismatch (columns ex_delta_extra) (columns ex_existing)]"
  using ex_columns_differ(1)
  by (simp add: error_messages_wf [OF ex_wf(1) ex_wf_more(3)] ex_keys)

lemma ex_messages_both:
  "error_messages ex_duplicates ex_delta_extra [''id'']
     = Inr [ExistingDuplicates, ColumnMismatch (columns ex_delta_extra) (columns ex_duplicates)]"
  using ex_columns_differ(2)
  by (simp add: error_messages_wf [OF ex_wf_more(1) ex_wf_more(3)] ex_keys)

lemma ex_gate: "is_data_quality_sufficient ex_existing ex_delta [''id''] = Inr True"
  using ex_columns_same(1) by (simp add: gate_iff [OF ex_wf] ex_keys)

lemma ex_gate_fails: "is_data_quality_sufficient ex_duplicates ex_delta_one [''id''] = Inr False"
  by (simp add: is_data_quality_sufficient_def ex_messages_dup)

text \<open>
  The verdict does not carry the violations: an existing table with a repeated key and a
  delta with an extra column are both rejected, with different messages recorded, and the
  caller receives the same value \<open>False\<close> for both.
\<close>

theorem verdict_hides_violations:
  "is_data_quality_sufficient ex_duplicates ex_delta_one [''id'']
     = is_data_quality_sufficient ex_existing ex_delta_extra [''id'']
   \<and> error_messages ex_duplicates ex_delta_one [''id'']
       \<noteq> error_messages ex_existing ex_delta_extra [''id'']"
  by (simp add: is_data_quality_sufficient_def ex_messages_dup ex_messages_extra)

text \<open>
  Claim C7, as amended. On well-formed frames and a non-empty primary key the gate
  returns its boolean verdict only, which is true exactly when the local list of messages
  is empty. All three checks are evaluated, none skipped when another fails: the list
  holds the message of a check exactly when that check is violated.
\<close>

theorem gate_records_every_violation:
  assumes "wf_dataframe existing_df" and "wf_dataframe delta_df"
    and "primary_key \<noteq> []"
  shows "\<exists>msgs. error_messages existing_df delta_df primary_key = Inr msgs
           \<and> (ExistingDuplicates \<in> set msgs)
               = (\<not> distinct (key_tuples existing_df primary_key))
           \<and> (DeltaDuplicates \<in> set msgs)
               = (\<not> distinct (key_tuples delta_df primary_key))
           \<and> (ColumnMismatch (columns delta_df) (columns existing_df) \<in> set msgs)
               = (set (columns existing_df) \<noteq> set (columns delta_df))
           \<and> is_data_quality_sufficient existing_df delta_df primary_key
               = Inr (msgs = [])"
  by (simp add: is_data_quality_sufficient_def error_messages_wf [OF assms])

theorem gate_records_every_violation_witness:
  "error_messages ex_duplicates ex_delta_extra [''id'']
     = Inr [ExistingDuplicates, ColumnMismatch (columns ex_delta_extra) (columns ex_duplicates)]
   \<and> \<not> distinct (key_tuples ex_duplicates [''id''])
   \<and> distinct (key_tuples ex_delta_extra [''id''])
   \<and> set (columns ex_duplicates) \<noteq> set (columns ex_delta_extra)
   \<and> is_data_quality_sufficient ex_duplicates ex_delta_extra [''id''] = Inr False"
proof -
  have a: "[''id''] \<noteq> ([] :: string list)" by simp
  from gate_records_every_violation [OF ex_wf_more(1) ex_wf_more(3) a]
  obtain msgs where m: "error_messages ex_duplicates ex_delta_extra [''id''] = Inr msgs"
    and e: "(ExistingDuplicates \<in> set msgs) = (\<not> distinct (key_tuples ex_duplicates [''id'']))"
    and d: "(DeltaDuplicates \<in> set msgs) = (\<not> distinct (key_tuples ex_delta_extra [''id'']))"
    and c: "(ColumnMismatch (columns ex_delta_extra) (columns ex_duplicates) \<in> set msgs)
            = (set (columns ex_duplicates) \<noteq> set (columns ex_delta_extra))"
    and g: "is_data_quality_sufficient ex_duplicates ex_delta_extra [''id''] = Inr (msgs = [])"
    by blast
  from m have msgs: "msgs = [ExistingDuplicates,
                             ColumnMismatch (columns ex_delta_extra) (columns ex_duplicates)]"
    by (simp add: ex_messages_both)
  from e d c g show ?thesis unfolding msgs by (simp add: ex_messages_both)
qed

section \<open>The columns of the merged frame\<close>

lemma set_index_Inr:
  assumes "set_index pd df keys = Inr f"
  shows "frame_columns f = columns df \<and> frame_rows f = rows df
         \<and> keys \<noteq> [] \<and> set keys \<subseteq> set (columns df)"
  using assms
  by (auto simp: set_index_def Let_def filter_empty_conv split: if_splits)

lemma union_columns_same:
  "distinct a \<Longrightarrow> set b = set a \<Longrightarrow> union_columns a b = a"
  by (simp add: union_columns_def unique_from_append)

text \<open>
  Claim C8. When the gate passes and both \<^verbatim>\<open>set_index\<close> calls return, the merge
  returns a frame whose columns are the existing table's columns, whatever pandas casts;
  the key columns are still among them.
\<close>

theorem merged_columns_invariant:
  assumes "is_data_quality_sufficient existing_df delta_df primary_key = Inr True"
    and "set_index pd existing_df primary_key = Inr existing_ix"
    and "set_index pd delta_df primary_key = Inr delta_ix"
  shows "\<exists>merged. merged_df pd existing_df delta_df primary_key = Inr merged
           \<and> columns merged = columns existing_df
           \<and> set (columns merged) = set (columns delta_df)
           \<and> set primary_key \<subseteq> set (columns merged)"
proof -
  from gate_columns [OF assms(1)] have g: "distinct (columns existing_df)"
    "set (columns delta_df) = set (columns existing_df)"
    by simp_all
  from set_index_Inr [OF assms(2)] have e: "frame_columns existing_ix = columns existing_df"
    "set primary_key \<subseteq> set (columns existing_df)"
    by simp_all
  from set_index_Inr [OF assms(3)] have d: "frame_columns delta_ix = columns delta_df"
    by simp
  have un: "union_columns (columns existing_df) (columns delta_df) = columns existing_df"
    using g by (rule union_columns_same)
  have "columns (reset_index_drop
          (concat_frames pd
             (select_rows existing_ix
                (invert (isin pd (frame_index existing_ix) (frame_index delta_ix))))
             delta_ix)) = columns existing_df"
    by (simp add: reset_index_drop_def concat_frames_def select_rows_def Let_def e(1) d un
        split: prod.splits)
  with g e(2) show ?thesis
    by (simp add: merged_df_def assms(2) assms(3))
qed

lemma ex_set_index:
  "set_index exact_casts ex_existing [''id'']
     = Inr \<lparr>frame_columns = columns ex_existing, frame_rows = rows ex_existing,
            frame_index = key_tuples ex_existing [''id'']\<rparr>"
  "set_index exact_casts ex_delta [''id'']
     = Inr \<lparr>frame_columns = columns ex_delta, frame_rows = rows ex_delta,
            frame_index = key_tuples ex_delta [''id'']\<rparr>"
  by (simp_all add: set_index_def exact_casts_def key_tuples_def [symmetric] ex_keys)
     (simp_all add: ex_existing_def ex_delta_def)

lemma ex_merge: "merged_df exact_casts ex_existing ex_delta [''id''] = Inr ex_merged"
  by (simp add: merged_df_def set_index_def reindex_row_def get_cell_def isin_def invert_def
      select_rows_def concat_frames_def union_columns_def reset_index_drop_def
      exact_casts_def ex_existing_def ex_delta_def ex_merged_def)

theorem merged_columns_invariant_witness:
  "merged_df exact_casts ex_existing ex_delta [''id''] = Inr ex_merged
   \<and> columns ex_merged = columns ex_existing
   \<and> set [''id''] \<subseteq> set (columns ex_merged)"
proof -
  from merged_columns_invariant [OF ex_gate ex_set_index] show ?thesis
    by (auto simp: ex_merge)
qed

section \<open>The orchestrator\<close>

text \<open>
  Claim C3. When the catalog reports the table present, the reader returns the existing
  table and the gate returns false, the function returns after the existence lookup and
  the read: the location lookup and the writer are not called, and the world is the one
  the reader left.
\<close>

theorem gate_failure_no_mutation:
  assumes "does_table_exist svc database table (world s) = (Inr True, w1)"
    and "read_parquet_table svc database table w1 = (Inr existing_df, w2)"
    and "is_data_quality_sufficient existing_df delta_df primary_key = Inr False"
  shows "\<exists>s'. merge_upsert_table pd svc delta_df database table primary_key s = (Inr (), s')
           \<and> calls s' = calls s @ [DoesTableExist database table,
                                    ReadParquetTable database table]
           \<and> world s' = w2"
  using assms by (simp add: merge_upsert_table_def invoke_def)

theorem gate_failure_no_mutation_witness:
  "\<exists>s'. merge_upsert_table exact_casts single_table ex_delta_one ''db'' ''t'' [''id'']
           (start (Some ex_duplicates)) = (Inr (), s')
        \<and> calls s' = [DoesTableExist ''db'' ''t'', ReadParquetTable ''db'' ''t'']
        \<and> world s' = Some ex_duplicates"
proof -
  have a: "does_table_exist single_table ''db'' ''t'' (world (start (Some ex_duplicates)))
           = (Inr True, Some ex_duplicates)"
    by (simp add: single_table_def start_def)
  have b: "read_parquet_table single_table ''db'' ''t'' (Some ex_duplicates)
           = (Inr ex_duplicates, Some ex_duplicates)"
    by (simp add: single_table_def)
  from gate_failure_no_mutation [OF a b ex_gate_fails] show ?thesis
    by (simp add: start_def)
qed

text \<open>
  Claim C4. The claim asks for a diagnostic when the gate fails. On the existing table
  with a repeated key the gate fails and the function returns normally, and the log is
  empty: the messages the gate collected are never emitted.
\<close>

theorem gate_failure_is_silent:
  "is_data_quality_sufficient ex_duplicates ex_delta_one [''id''] = Inr False
   \<and> merge_upsert_table pd single_table ex_delta_one ''db'' ''t'' [''id'']
         (start (Some ex_duplicates))
       = (Inr (),
          \<lparr>world = Some ex_duplicates,
           calls = [DoesTableExist ''db'' ''t'', ReadParquetTable ''db'' ''t''],
           logs = []\<rparr>)"
  by (simp add: ex_gate_fails merge_upsert_table_def invoke_def single_table_def start_def)

text \<open>
  Claim C5. When the catalog reports the table absent (at the \<^verbatim>\<open>if\<close> and again at
  the \<^verbatim>\<open>elif\<close>), the function logs the table-not-found diagnostic and returns.
  Its only calls are the two existence lookups: no read, no merge, no write, and the
  world is the one the lookups left.
\<close>

theorem table_absent_stops:
  assumes "does_table_exist svc database table (world s) = (Inr False, w1)"
    and "does_table_exist svc database table w1 = (Inr False, w2)"
  shows "\<exists>s'. merge_upsert_table pd svc delta_df database table primary_key s = (Inr (), s')
           \<and> calls s' = calls s @ [DoesTableExist database table,
                                    DoesTableExist database table]
           \<and> logs s' = logs s @ [LogException (''database_name.table_name= '' @ database
                                     @ ''.'' @ table @ '' does not exist '')]
           \<and> world s' = w2"
  using assms by (simp add: merge_upsert_table_def invoke_def log_exception_def)

theorem table_absent_stops_witness:
  "\<exists>s'. merge_upsert_table exact_casts single_table ex_delta ''db'' ''t'' [''id'']
           (start None) = (Inr (), s')
        \<and> calls s' = [DoesTableExist ''db'' ''t'', DoesTableExist ''db'' ''t'']
        \<and> logs s' = [LogException ''database_name.table_name= db.t does not exist '']
        \<and> world s' = None"
proof -
  have a: "does_table_exist single_table ''db'' ''t'' (world (start None)) = (Inr False, None)"
    by (simp add: single_table_def start_def)
  have b: "does_table_exist single_table ''db'' ''t'' None = (Inr False, None)"
    by (simp add: single_table_def)
  from table_absent_stops [OF a b] show ?thesis
    by (simp add: start_def)
qed

text \<open>
  Claim C10. When the first existence lookup returns false, the catalog is asked a second
  time and nothing else is called. The table-not-found diagnostic is logged exactly when
  the second answer is false too, and the unknown-state diagnostic exactly when the
  second answer is true; so that branch is not reached when both answers agree.
\<close>

theorem existence_asked_twice:
  assumes "does_table_exist svc database table (world s) = (Inr False, w1)"
    and "does_table_exist svc database table w1 = (r2, w2)"
  shows "\<exists>res s' new.
           merge_upsert_table pd svc delta_df database table primary_key s = (res, s')
           \<and> calls s' = calls s @ [DoesTableExist database table,
                                    DoesTableExist database table]
           \<and> world s' = w2
           \<and> logs s' = logs s @ new
           \<and> (LogException (''database_name.table_name= '' @ database @ ''.'' @ table
                              @ '' does not exist '') \<in> set new) = (r2 = Inr False)
           \<and> (LogException ''Reached a unknown logical state'' \<in> set new)
               = (r2 = Inr True)"
proof (cases r2)
  case (Inl e)
  with assms show ?thesis
    by (simp add: merge_upsert_table_def invoke_def)
next
  case (Inr found_again)
  with assms show ?thesis
    by (cases found_again) (simp_all add: merge_upsert_table_def invoke_def log_exception_def)
qed

theorem existence_asked_twice_witness:
  "\<exists>res s' new.
     merge_upsert_table exact_casts flaky_catalog ex_delta ''db'' ''t'' [''id''] (start 0)
       = (res, s')
     \<and> calls s' = [DoesTableExist ''db'' ''t'', DoesTableExist ''db'' ''t'']
     \<and> world s' = 2
     \<and> logs s' = new
     \<and> LogException ''database_name.table_name= db.t does not exist '' \<notin> set new
     \<and> LogException ''Reached a unknown logical state'' \<in> set new"
proof -
  have a: "does_table_exist flaky_catalog ''db'' ''t'' (world (start 0)) = (Inr False, 1)"
    by (simp add: flaky_catalog_def start_def)
  have b: "does_table_exist flaky_catalog ''db'' ''t'' 1 = (Inr True, 2)"
    by (simp add: flaky_catalog_def)
  from existence_asked_twice [OF a b] show ?thesis
    by (simp add: start_def)
qed

end
